theory Spec2Isabelle
  imports Complex_Main "HOL-Library.Word"
begin

section \<open>Request width estimation of the API Priority and Fairness filter\<close>

text \<open>
  A shallow embedding of \<^verbatim>\<open>list_width.go\<close>, \<^verbatim>\<open>width.go\<close> and
  \<^verbatim>\<open>mutating_width.go\<close> of package
  \<^verbatim>\<open>k8s.io/apiserver/pkg/util/flowcontrol/request\<close>.

  Go's \<^verbatim>\<open>int64\<close> and \<^verbatim>\<open>int\<close> are 64-bit words read with \<open>sint\<close>, Go's
  \<^verbatim>\<open>uint\<close> is a 64-bit word read with \<open>unat\<close>.
\<close>

subsection \<open>Data\<close>

type_synonym int64 = "64 word"
type_synonym uint = "64 word"

text \<open>\<^verbatim>\<open>width.go\<close>: the two seat constants and the result type.\<close>

definition minimumSeats :: uint where
  "minimumSeats = 1"

definition maximumSeats :: uint where
  "maximumSeats = 10"

record Width =
  Seats :: uint

text \<open>
  \<^verbatim>\<open>apirequest.RequestInfo\<close>, with the three fields the estimators read.
\<close>

record RequestInfo =
  Verb :: string
  APIGroup :: string
  Resource :: string

text \<open>
  \<^verbatim>\<open>metav1.ListOptions\<close>, with the four fields the estimators read.
  \<^verbatim>\<open>ResourceVersionMatch\<close> is a string type in Go, and
  \<^verbatim>\<open>metav1.ResourceVersionMatchExact\<close> is the string \<^verbatim>\<open>"Exact"\<close>.
\<close>

record ListOptions =
  ResourceVersion :: string
  Continue :: string
  Limit :: int64
  ResourceVersionMatch :: string

definition ResourceVersionMatchExact :: string where
  "ResourceVersionMatchExact = ''Exact''"

text \<open>\<^verbatim>\<open>url.Values\<close> is \<^verbatim>\<open>map[string][]string\<close>.\<close>

type_synonym url_Values = "string \<rightharpoonup> string list"

text \<open>
  \<^verbatim>\<open>*http.Request\<close>: what \<^verbatim>\<open>apirequest.RequestInfoFrom(r.Context())\<close> yields
  (\<open>None\<close> when \<^verbatim>\<open>ok\<close> is false) and \<^verbatim>\<open>r.URL.Query()\<close>.
\<close>

record Request =
  RequestInfoFrom :: "RequestInfo option"
  URL_Query :: url_Values

text \<open>
  What the estimators take from outside the package:
  \<^item> \<^verbatim>\<open>metav1.Convert_url_Values_To_v1_ListOptions\<close>, the query decoder, which
    returns an error (\<open>Inl\<close>) or the decoded options (\<open>Inr\<close>);
  \<^item> the feature gate \<^verbatim>\<open>features.APIListChunking\<close>;
  \<^item> the result of converting a negative \<^verbatim>\<open>float64\<close> to \<^verbatim>\<open>uint\<close>, which the
    Go specification leaves to the implementation.
\<close>

record platform =
  Convert_url_Values_To_v1_ListOptions :: "url_Values \<Rightarrow> string + ListOptions"
  APIListChunking :: bool
  negative_float64_to_uint :: "int \<Rightarrow> uint"

subsection \<open>Seats from a number of objects or watchers\<close>

text \<open>
  \<^verbatim>\<open>uint(math.Ceil(float64(n) / float64(100)))\<close>. The quotient is taken over the
  reals. A ceiling that is not negative is converted by value (it is below \<open>2 ^ 64\<close>
  for every 64-bit \<open>n\<close>), a negative one by the platform's rule.

  The \<^verbatim>\<open>float64\<close> quotient is exact enough for this: up to \<open>n = 1000\<close> its
  distance to the real quotient is far below a hundredth, so both have the same
  ceiling; above, both ceilings are at least 10 and the seats are cut to 10; and
  from \<open>- 99\<close> to \<open>- 1\<close> the \<^verbatim>\<open>float64\<close> ceiling is the negative zero, which
  converts to 0.
\<close>

definition ceil_div_100 :: "int64 \<Rightarrow> int" where
  "ceil_div_100 n = \<lceil>real_of_int (sint n) / 100\<rceil>"

definition uint_of_ceil :: "platform \<Rightarrow> int \<Rightarrow> uint" where
  "uint_of_ceil p c = (if 0 \<le> c then word_of_int c else negative_float64_to_uint p c)"

text \<open>
  The two \<^verbatim>\<open>if\<close> statements that follow the conversion in both estimators:
  \<^verbatim>\<open>if seats < minimumSeats { seats = minimumSeats }\<close> and
  \<^verbatim>\<open>if seats > maximumSeats { seats = maximumSeats }\<close>.
\<close>

definition boundSeats :: "uint \<Rightarrow> uint" where
  "boundSeats seats =
    (let seats1 = (if seats < minimumSeats then minimumSeats else seats)
     in if seats1 > maximumSeats then maximumSeats else seats1)"

subsection \<open>\<^verbatim>\<open>list_width.go\<close>\<close>

text \<open>
  Modelled from the spec: \<^verbatim>\<open>schema.GroupResource.String\<close> of
  \<^verbatim>\<open>k8s.io/apimachinery\<close>, which \<^verbatim>\<open>key\<close> calls and which is not among the
  source files. The resource name alone for the empty group, otherwise the
  resource name, a dot, and the group.
\<close>

definition GroupResource_String :: "string \<Rightarrow> string \<Rightarrow> string" where
  "GroupResource_String grp res =
    (if length grp = 0 then res else res @ ''.'' @ grp)"

definition key :: "RequestInfo \<Rightarrow> string" where
  "key requestInfo = GroupResource_String (APIGroup requestInfo) (Resource requestInfo)"

definition shouldListFromStorage :: "platform \<Rightarrow> url_Values \<Rightarrow> ListOptions \<Rightarrow> bool" where
  "shouldListFromStorage p query opts =
    (let resourceVersion = ResourceVersion opts;
         pagingEnabled = APIListChunking p;
         hasContinuation = (pagingEnabled \<and> length (Continue opts) > 0);
         hasLimit = (pagingEnabled \<and> 0 <s Limit opts \<and> resourceVersion \<noteq> ''0'')
     in resourceVersion = '''' \<or> hasContinuation \<or> hasLimit
        \<or> ResourceVersionMatch opts = ResourceVersionMatchExact)"

text \<open>
  The \<^verbatim>\<open>switch\<close> of \<^verbatim>\<open>listWidthEstimator.estimate\<close> that sets
  \<^verbatim>\<open>estimatedObjectsToBeProcessed\<close>.
\<close>

definition estimatedObjectsToBeProcessed :: "bool \<Rightarrow> ListOptions \<Rightarrow> int64 \<Rightarrow> int64" where
  "estimatedObjectsToBeProcessed isListFromCache listOptions count =
    (if isListFromCache then count
     else (let estimated = Limit listOptions
           in if estimated = 0 then count else estimated))"

definition listWidthEstimator_estimate ::
  "platform \<Rightarrow> (string \<Rightarrow> int64) \<Rightarrow> Request \<Rightarrow> Width" where
  "listWidthEstimator_estimate p countFn r =
    (case RequestInfoFrom r of
       None \<Rightarrow> \<lparr>Seats = maximumSeats\<rparr>
     | Some requestInfo \<Rightarrow>
        (let query = URL_Query r
         in case Convert_url_Values_To_v1_ListOptions p query of
              Inl err \<Rightarrow> \<lparr>Seats = minimumSeats\<rparr>
            | Inr listOptions \<Rightarrow>
               (let count = countFn (key requestInfo);
                    isListFromCache = (\<not> shouldListFromStorage p query listOptions)
                in if (Limit listOptions = 0 \<or> isListFromCache) \<and> count = 0
                   then \<lparr>Seats = maximumSeats\<rparr>
                   else
                     (let estimated =
                            estimatedObjectsToBeProcessed isListFromCache listOptions count;
                          seats = uint_of_ceil p (ceil_div_100 estimated)
                      in \<lparr>Seats = boundSeats seats\<rparr>))))"

subsection \<open>\<^verbatim>\<open>mutating_width.go\<close>\<close>

text \<open>
  \<^verbatim>\<open>watchCountGetterFunc\<close> is not declared among the source files; the test calls it
  with a function from \<^verbatim>\<open>*apirequest.RequestInfo\<close> to \<^verbatim>\<open>int\<close>.
\<close>

definition mutatingWidthEstimator_estimate ::
  "platform \<Rightarrow> (RequestInfo \<Rightarrow> int64) \<Rightarrow> Request \<Rightarrow> Width" where
  "mutatingWidthEstimator_estimate p countFn r =
    (case RequestInfoFrom r of
       None \<Rightarrow> \<lparr>Seats = maximumSeats\<rparr>
     | Some requestInfo \<Rightarrow>
        (let watchCount = countFn requestInfo;
             seats = uint_of_ceil p (ceil_div_100 watchCount)
         in \<lparr>Seats = boundSeats seats\<rparr>))"

subsection \<open>\<^verbatim>\<open>width.go\<close>\<close>

text \<open>
  \<^verbatim>\<open>WidthEstimatorFunc\<close> and its method \<^verbatim>\<open>EstimateWidth\<close>, which calls the
  function.
\<close>

type_synonym WidthEstimatorFunc = "Request \<Rightarrow> Width"

definition EstimateWidth :: "WidthEstimatorFunc \<Rightarrow> Request \<Rightarrow> Width" where
  "EstimateWidth e r = e r"

definition newListWidthEstimator :: "platform \<Rightarrow> (string \<Rightarrow> int64) \<Rightarrow> WidthEstimatorFunc" where
  "newListWidthEstimator p countFn = listWidthEstimator_estimate p countFn"

definition newMutatingWidthEstimator ::
  "platform \<Rightarrow> (RequestInfo \<Rightarrow> int64) \<Rightarrow> WidthEstimatorFunc" where
  "newMutatingWidthEstimator p countFn = mutatingWidthEstimator_estimate p countFn"

text \<open>
  \<^verbatim>\<open>widthEstimator.estimate\<close>; the first argument is the struct's only field,
  \<^verbatim>\<open>listWidthEstimator\<close>. The \<^verbatim>\<open>switch\<close> on the verb has the single case
  \<^verbatim>\<open>"list"\<close>.
\<close>

definition widthEstimator_estimate :: "WidthEstimatorFunc \<Rightarrow> Request \<Rightarrow> Width" where
  "widthEstimator_estimate listWidthEstimator r =
    (case RequestInfoFrom r of
       None \<Rightarrow> \<lparr>Seats = maximumSeats\<rparr>
     | Some requestInfo \<Rightarrow>
        (if Verb requestInfo = ''list'' then EstimateWidth listWidthEstimator r
         else \<lparr>Seats = minimumSeats\<rparr>))"

definition NewWidthEstimator :: "platform \<Rightarrow> (string \<Rightarrow> int64) \<Rightarrow> WidthEstimatorFunc" where
  "NewWidthEstimator p countFn = widthEstimator_estimate (newListWidthEstimator p countFn)"

subsection \<open>The claims in the specification's words\<close>

text \<open>
  The list estimate as the specification words it: the count when the list is
  served from the cache, otherwise the limit when it is positive, else the count.
\<close>

definition spec_estimatedObjects :: "bool \<Rightarrow> int \<Rightarrow> int \<Rightarrow> int" where
  "spec_estimatedObjects fromCache limit count =
    (if fromCache then count else if limit > 0 then limit else count)"

text \<open>\<open>ceil(n / 100)\<close> clamped into \<open>[1, 10]\<close>.\<close>

definition spec_seats :: "int \<Rightarrow> nat" where
  "spec_seats n = nat (max 1 (min 10 \<lceil>real_of_int n / 100\<rceil>))"

subsection \<open>Test doubles\<close>

text \<open>
  A decoder for concrete runs. It reads the first value of the keys
  \<^verbatim>\<open>resourceVersion\<close>, \<^verbatim>\<open>continue\<close> and \<^verbatim>\<open>resourceVersionMatch\<close>, and
  looks the first value of \<^verbatim>\<open>limit\<close> up in a table of the decimal strings used
  below; any other limit is a decoding error.
\<close>

definition testLimits :: "(string \<times> int64) list" where
  "testLimits = [(''499'', 499), (''799'', 799)]"

definition firstValue :: "url_Values \<Rightarrow> string \<Rightarrow> string" where
  "firstValue query k = (case query k of Some (v # vs) \<Rightarrow> v | _ \<Rightarrow> [])"

definition testDecode :: "url_Values \<Rightarrow> string + ListOptions" where
  "testDecode query =
    (let opts = \<lparr>ResourceVersion = firstValue query ''resourceVersion'',
                 Continue = firstValue query ''continue'',
                 Limit = 0,
                 ResourceVersionMatch = firstValue query ''resourceVersionMatch''\<rparr>
     in case query ''limit'' of
          Some (v # vs) \<Rightarrow>
            (case map_of testLimits v of
               Some n \<Rightarrow> Inr (opts\<lparr>Limit := n\<rparr>)
             | None \<Rightarrow> Inl ''invalid limit'')
        | _ \<Rightarrow> Inr opts)"

text \<open>
  A platform for concrete runs: the decoder above, the feature gate as given, and
  a negative \<^verbatim>\<open>float64\<close> converted as on amd64 (through the signed 64-bit value).
\<close>

definition testPlatform :: "bool \<Rightarrow> platform" where
  "testPlatform paging =
    \<lparr>Convert_url_Values_To_v1_ListOptions = testDecode,
     APIListChunking = paging,
     negative_float64_to_uint = (\<lambda>c. word_of_int c)\<rparr>"

text \<open>The request info of the tests: group \<^verbatim>\<open>foo.bar\<close>, resource \<^verbatim>\<open>resource\<close>.\<close>

definition testInfo :: "string \<Rightarrow> RequestInfo" where
  "testInfo verb = \<lparr>Verb = verb, APIGroup = ''foo.bar'', Resource = ''resource''\<rparr>"

definition testRequest :: "RequestInfo option \<Rightarrow> url_Values \<Rightarrow> Request" where
  "testRequest info query = \<lparr>RequestInfoFrom = info, URL_Query = query\<rparr>"

text \<open>The tests' \<^verbatim>\<open>countsFn\<close>: a Go map lookup, 0 for an absent key.\<close>

definition countsFn :: "(string \<rightharpoonup> int64) \<Rightarrow> string \<Rightarrow> int64" where
  "countsFn counts k = (case counts k of None \<Rightarrow> 0 | Some n \<Rightarrow> n)"

text \<open>The tests' \<^verbatim>\<open>watchCountsFn\<close>: the same count for every request info.\<close>

definition watchCountsFn :: "int64 \<Rightarrow> RequestInfo \<Rightarrow> int64" where
  "watchCountsFn watchCount requestInfo = watchCount"

section \<open>Properties\<close>

subsection \<open>Evaluation rules\<close>

lemmas test_defs = testPlatform_def testDecode_def testLimits_def firstValue_def testInfo_def
  testRequest_def countsFn_def watchCountsFn_def

lemmas estimator_defs = EstimateWidth_def NewWidthEstimator_def widthEstimator_estimate_def
  newListWidthEstimator_def listWidthEstimator_estimate_def mutatingWidthEstimator_estimate_def
  newMutatingWidthEstimator_def shouldListFromStorage_def estimatedObjectsToBeProcessed_def
  key_def GroupResource_String_def ResourceVersionMatchExact_def uint_of_ceil_def
  boundSeats_def minimumSeats_def maximumSeats_def

subsection \<open>The seat computation\<close>

lemma unat_boundSeats: "unat (boundSeats s) = max 1 (min 10 (unat s))"
  by (auto simp add: boundSeats_def minimumSeats_def maximumSeats_def Let_def
      word_less_nat_alt word_le_nat_alt not_less)

text \<open>The ceiling of the real quotient, in integer arithmetic.\<close>

lemma ceil_div_100_alt: "ceil_div_100 n = - ((- sint n) div 100)"
  unfolding ceil_div_100_def
  by (metis ceiling_divide_eq_div of_int_numeral)

lemma ceil_div_100_bounds:
  assumes "- 100 < sint (n::int64)"
  shows "0 \<le> ceil_div_100 n \<and> ceil_div_100 n < 18446744073709551616"
proof -
  have b: "sint n < 9223372036854775808" using sint_lt [of n] by simp
  have "0 \<le> - (- sint n div 100)" using assms by simp
  moreover have "- (- sint n div 100) < 18446744073709551616" using b by simp
  ultimately show ?thesis unfolding ceil_div_100_alt by simp
qed

lemma unat_uint_of_ceil:
  assumes "- 100 < sint (n::int64)"
  shows "unat (uint_of_ceil p (ceil_div_100 n)) = nat (ceil_div_100 n)"
proof -
  from ceil_div_100_bounds [OF assms]
  have "0 \<le> ceil_div_100 n" and "ceil_div_100 n < 2 ^ 64" by simp_all
  then show ?thesis
    unfolding uint_of_ceil_def
    by (simp add: unat_eq_nat_uint uint_word_of_int take_bit_int_eq_self)
qed

lemma clamp_nat: "0 \<le> c \<Longrightarrow> max 1 (min 10 (nat c)) = nat (max 1 (min 10 c))"
  by arith

lemma clamp_mono: "(c::int) \<le> d \<Longrightarrow> nat (max 1 (min 10 c)) \<le> nat (max 1 (min 10 d))"
  by arith

lemma seats_of_count:
  assumes "- 100 < sint (n::int64)"
  shows "unat (boundSeats (uint_of_ceil p (ceil_div_100 n))) = spec_seats (sint n)"
proof -
  have "0 \<le> ceil_div_100 n" using ceil_div_100_bounds [OF assms] by simp
  then have "max 1 (min 10 (nat (ceil_div_100 n))) = nat (max 1 (min 10 (ceil_div_100 n)))"
    by (rule clamp_nat)
  then have "unat (boundSeats (uint_of_ceil p (ceil_div_100 n)))
      = nat (max 1 (min 10 (ceil_div_100 n)))"
    by (simp only: unat_boundSeats unat_uint_of_ceil [OF assms])
  then show ?thesis
    by (simp only: spec_seats_def ceil_div_100_def)
qed

lemma spec_seats_mono:
  assumes "a \<le> b"
  shows "spec_seats a \<le> spec_seats b"
proof -
  have "real_of_int a / 100 \<le> real_of_int b / 100" using assms by simp
  then have "\<lceil>real_of_int a / 100\<rceil> \<le> \<lceil>real_of_int b / 100\<rceil>" by (rule ceiling_mono)
  then show ?thesis unfolding spec_seats_def by (rule clamp_mono)
qed

subsection \<open>The estimators by cases\<close>

lemma list_estimate_no_info:
  "RequestInfoFrom r = None \<Longrightarrow>
   listWidthEstimator_estimate p countFn r = \<lparr>Seats = maximumSeats\<rparr>"
  by (simp add: listWidthEstimator_estimate_def)

lemma list_estimate_decode_error:
  "RequestInfoFrom r = Some requestInfo \<Longrightarrow>
   Convert_url_Values_To_v1_ListOptions p (URL_Query r) = Inl err \<Longrightarrow>
   listWidthEstimator_estimate p countFn r = \<lparr>Seats = minimumSeats\<rparr>"
  by (simp add: listWidthEstimator_estimate_def)

lemma list_estimate_decoded:
  "RequestInfoFrom r = Some requestInfo \<Longrightarrow>
   Convert_url_Values_To_v1_ListOptions p (URL_Query r) = Inr opts \<Longrightarrow>
   listWidthEstimator_estimate p countFn r =
     (if (Limit opts = 0 \<or> \<not> shouldListFromStorage p (URL_Query r) opts)
          \<and> countFn (key requestInfo) = 0
      then \<lparr>Seats = maximumSeats\<rparr>
      else \<lparr>Seats = boundSeats (uint_of_ceil p (ceil_div_100
              (estimatedObjectsToBeProcessed (\<not> shouldListFromStorage p (URL_Query r) opts)
                 opts (countFn (key requestInfo)))))\<rparr>)"
  by (simp add: listWidthEstimator_estimate_def Let_def)

lemma list_estimate_range:
  "1 \<le> unat (Seats (listWidthEstimator_estimate p countFn r))
   \<and> unat (Seats (listWidthEstimator_estimate p countFn r)) \<le> 10"
  by (simp add: listWidthEstimator_estimate_def Let_def unat_boundSeats
      minimumSeats_def maximumSeats_def split: option.split sum.split)

lemma mutating_estimate_range:
  "1 \<le> unat (Seats (mutatingWidthEstimator_estimate p watchFn r))
   \<and> unat (Seats (mutatingWidthEstimator_estimate p watchFn r)) \<le> 10"
  by (simp add: mutatingWidthEstimator_estimate_def Let_def unat_boundSeats
      minimumSeats_def maximumSeats_def split: option.split)

lemma width_estimate_range:
  "1 \<le> unat (Seats (widthEstimator_estimate (listWidthEstimator_estimate p countFn) r))
   \<and> unat (Seats (widthEstimator_estimate (listWidthEstimator_estimate p countFn) r)) \<le> 10"
  using list_estimate_range [of p countFn r]
  by (simp add: widthEstimator_estimate_def EstimateWidth_def
      minimumSeats_def maximumSeats_def split: option.split)

section \<open>The claims\<close>

text \<open>
  C1. Every estimate has between 1 and 10 seats: that of the dispatcher, that of
  the list estimator and that of the mutating estimator, for every request, every
  count source and every platform.
\<close>

theorem seats_in_range:
  "1 \<le> unat (Seats (EstimateWidth (NewWidthEstimator p countFn) r))
   \<and> unat (Seats (EstimateWidth (NewWidthEstimator p countFn) r)) \<le> 10
   \<and> 1 \<le> unat (Seats (EstimateWidth (newListWidthEstimator p countFn) r))
   \<and> unat (Seats (EstimateWidth (newListWidthEstimator p countFn) r)) \<le> 10
   \<and> 1 \<le> unat (Seats (EstimateWidth (newMutatingWidthEstimator p watchFn) r))
   \<and> unat (Seats (EstimateWidth (newMutatingWidthEstimator p watchFn) r)) \<le> 10"
  using width_estimate_range [of p countFn r] list_estimate_range [of p countFn r]
    mutating_estimate_range [of p watchFn r]
  by (simp add: EstimateWidth_def NewWidthEstimator_def newListWidthEstimator_def
      newMutatingWidthEstimator_def)

theorem seats_in_range_witness:
  "1 \<le> unat (Seats (EstimateWidth (NewWidthEstimator (testPlatform True)
          (countsFn [''resource.foo.bar'' \<mapsto> 1999]))
          (testRequest (Some (testInfo ''list'')) [''resourceVersion'' \<mapsto> [''foo'']])))
   \<and> unat (Seats (EstimateWidth (NewWidthEstimator (testPlatform True)
          (countsFn [''resource.foo.bar'' \<mapsto> 1999]))
          (testRequest (Some (testInfo ''list'')) [''resourceVersion'' \<mapsto> [''foo'']]))) \<le> 10"
  using seats_in_range [of "testPlatform True" "countsFn [''resource.foo.bar'' \<mapsto> 1999]"
      "testRequest (Some (testInfo ''list'')) [''resourceVersion'' \<mapsto> [''foo'']]"]
  by simp

text \<open>
  C2. The claim: a request with a resolved descriptor and the verb create, update,
  patch or delete is estimated by the mutating estimator, so 299 watchers give 3
  seats. The dispatcher of \<^verbatim>\<open>width.go\<close> has no case for these verbs: the create
  request of the test gets 1 seat, whatever the watch count, while the mutating
  estimator itself gives 3 seats for 299 watchers and 10 for 1999.
\<close>

theorem mutating_verbs_not_dispatched:
  "Seats (EstimateWidth (NewWidthEstimator (testPlatform True) (countsFn Map.empty))
      (testRequest (Some (testInfo ''create'')) Map.empty)) = 1
   \<and> Seats (EstimateWidth (newMutatingWidthEstimator (testPlatform True) (watchCountsFn 299))
      (testRequest (Some (testInfo ''create'')) Map.empty)) = 3
   \<and> Seats (EstimateWidth (newMutatingWidthEstimator (testPlatform True) (watchCountsFn 1999))
      (testRequest (Some (testInfo ''create'')) Map.empty)) = 10"
  by (simp add: test_defs estimator_defs ceil_div_100_alt)

text \<open>
  C3. A request without request info gets \<open>maximumSeats = 10\<close> seats from the
  dispatcher, and from the list and the mutating estimator, whatever its query,
  the count sources and the platform.
\<close>

theorem missing_request_info_maximum:
  assumes "RequestInfoFrom r = None"
  shows "EstimateWidth (NewWidthEstimator p countFn) r = \<lparr>Seats = maximumSeats\<rparr>
    \<and> EstimateWidth (newListWidthEstimator p countFn) r = \<lparr>Seats = maximumSeats\<rparr>
    \<and> EstimateWidth (newMutatingWidthEstimator p watchFn) r = \<lparr>Seats = maximumSeats\<rparr>
    \<and> unat maximumSeats = 10"
  using assms
  by (simp add: EstimateWidth_def NewWidthEstimator_def widthEstimator_estimate_def
      newListWidthEstimator_def newMutatingWidthEstimator_def list_estimate_no_info
      mutatingWidthEstimator_estimate_def maximumSeats_def)

theorem missing_request_info_maximum_witness:
  "RequestInfoFrom (testRequest None [''limit'' \<mapsto> [''499'']]) = None
   \<and> Seats (EstimateWidth (NewWidthEstimator (testPlatform True)
        (countsFn [''resource.foo.bar'' \<mapsto> 799]))
        (testRequest None [''limit'' \<mapsto> [''499'']])) = 10"
proof -
  have h: "RequestInfoFrom (testRequest None [''limit'' \<mapsto> [''499'']]) = None"
    by (simp add: testRequest_def)
  from missing_request_info_maximum [OF h, of "testPlatform True"
      "countsFn [''resource.foo.bar'' \<mapsto> 799]"]
  show ?thesis using h by (simp add: maximumSeats_def)
qed

text \<open>
  C4. \<^verbatim>\<open>shouldListFromStorage\<close> holds exactly when the resource version is empty,
  or paging is enabled and the continue token is not empty, or paging is enabled
  and the limit is positive and the resource version is not \<^verbatim>\<open>"0"\<close>, or the
  resource version match is \<^verbatim>\<open>Exact\<close>.
\<close>

theorem shouldListFromStorage_iff:
  "shouldListFromStorage p query opts \<longleftrightarrow>
     (ResourceVersion opts = ''''
      \<or> (APIListChunking p \<and> Continue opts \<noteq> '''')
      \<or> (APIListChunking p \<and> 0 < sint (Limit opts) \<and> ResourceVersion opts \<noteq> ''0'')
      \<or> ResourceVersionMatch opts = ''Exact'')"
  by (simp add: shouldListFromStorage_def Let_def ResourceVersionMatchExact_def word_sless_alt)

theorem shouldListFromStorage_iff_witness:
  "shouldListFromStorage (testPlatform True) Map.empty
      \<lparr>ResourceVersion = ''1'', Continue = '''', Limit = 499, ResourceVersionMatch = ''''\<rparr>
   \<and> \<not> shouldListFromStorage (testPlatform True) Map.empty
      \<lparr>ResourceVersion = ''0'', Continue = '''', Limit = 499, ResourceVersionMatch = ''''\<rparr>
   \<and> \<not> shouldListFromStorage (testPlatform False) Map.empty
      \<lparr>ResourceVersion = ''1'', Continue = ''token'', Limit = 499, ResourceVersionMatch = ''''\<rparr>"
  using shouldListFromStorage_iff [of "testPlatform True" Map.empty
      "\<lparr>ResourceVersion = ''1'', Continue = '''', Limit = 499, ResourceVersionMatch = ''''\<rparr>"]
    shouldListFromStorage_iff [of "testPlatform True" Map.empty
      "\<lparr>ResourceVersion = ''0'', Continue = '''', Limit = 499, ResourceVersionMatch = ''''\<rparr>"]
    shouldListFromStorage_iff [of "testPlatform False" Map.empty
      "\<lparr>ResourceVersion = ''1'', Continue = ''token'', Limit = 499, ResourceVersionMatch = ''''\<rparr>"]
  by (simp add: testPlatform_def)

text \<open>
  C5. The claim's second example needs paging: with the feature gate
  \<^verbatim>\<open>APIListChunking\<close> off, the resource version \<^verbatim>\<open>"1"\<close> and the limit 499 are
  served from the cache, the estimate is the count 799, and the result is 8 seats,
  not 5.
\<close>

theorem list_estimate_spec_counterexample:
  "Convert_url_Values_To_v1_ListOptions (testPlatform False)
        [''resourceVersion'' \<mapsto> [''1''], ''limit'' \<mapsto> [''499'']]
      = Inr \<lparr>ResourceVersion = ''1'', Continue = '''', Limit = 499, ResourceVersionMatch = ''''\<rparr>
   \<and> \<not> shouldListFromStorage (testPlatform False)
        [''resourceVersion'' \<mapsto> [''1''], ''limit'' \<mapsto> [''499'']]
        \<lparr>ResourceVersion = ''1'', Continue = '''', Limit = 499, ResourceVersionMatch = ''''\<rparr>
   \<and> unat (Seats (EstimateWidth (NewWidthEstimator (testPlatform False)
        (countsFn [''resource.foo.bar'' \<mapsto> 799]))
        (testRequest (Some (testInfo ''list''))
           [''resourceVersion'' \<mapsto> [''1''], ''limit'' \<mapsto> [''499'']]))) = 8
   \<and> unat (Seats (EstimateWidth (NewWidthEstimator (testPlatform False)
        (countsFn [''resource.foo.bar'' \<mapsto> 799]))
        (testRequest (Some (testInfo ''list''))
           [''resourceVersion'' \<mapsto> [''1''], ''limit'' \<mapsto> [''499'']]))) \<noteq> 5"
  by (simp add: test_defs estimator_defs ceil_div_100_alt word_sless_alt)

text \<open>
  C5, amended. When the request info resolves, the query decodes to a limit that
  is not negative, the count is not negative and the unknown-count branch is not
  taken, the estimate is the count if the list is served from the cache, and
  otherwise the limit if it is positive, else the count; the seats are the
  ceiling of a hundredth of the estimate, clamped into \<open>[1, 10]\<close>. The same holds
  through the dispatcher for the verb \<^verbatim>\<open>list\<close>. In particular, the resource
  version \<^verbatim>\<open>"0"\<close>, limit 799 and count 799 give 8 seats, and, with paging
  enabled, the resource version \<^verbatim>\<open>"1"\<close>, limit 499 and count 799 give 5 seats.
\<close>

theorem list_estimate_seats:
  assumes info: "RequestInfoFrom r = Some requestInfo"
    and opts: "Convert_url_Values_To_v1_ListOptions p (URL_Query r) = Inr opts"
    and cache: "fromCache = (\<not> shouldListFromStorage p (URL_Query r) opts)"
    and count: "count = countFn (key requestInfo)"
    and known: "\<not> ((Limit opts = 0 \<or> fromCache) \<and> count = 0)"
    and limit_nonneg: "0 \<le> sint (Limit opts)"
    and count_nonneg: "0 \<le> sint count"
    and est: "estimated = spec_estimatedObjects fromCache (sint (Limit opts)) (sint count)"
  shows "unat (Seats (listWidthEstimator_estimate p countFn r)) = spec_seats estimated
    \<and> (Verb requestInfo = ''list'' \<longrightarrow>
         unat (Seats (EstimateWidth (NewWidthEstimator p countFn) r)) = spec_seats estimated)
    \<and> (ResourceVersion opts = ''0'' \<and> sint (Limit opts) = 799 \<and> sint count = 799 \<longrightarrow>
         unat (Seats (listWidthEstimator_estimate p countFn r)) = 8)
    \<and> (APIListChunking p \<and> ResourceVersion opts = ''1'' \<and> sint (Limit opts) = 499
         \<and> sint count = 799 \<longrightarrow>
         unat (Seats (listWidthEstimator_estimate p countFn r)) = 5)"
proof -
  let ?e = "estimatedObjectsToBeProcessed fromCache opts count"
  have zero: "Limit opts = 0 \<longleftrightarrow> sint (Limit opts) = 0"
    by (simp add: signed_eq_0_iff)
  have e: "sint ?e = estimated"
    unfolding est using limit_nonneg zero
    by (auto simp add: estimatedObjectsToBeProcessed_def spec_estimatedObjects_def Let_def)
  have low: "- 100 < sint ?e"
    using limit_nonneg count_nonneg
    by (simp add: estimatedObjectsToBeProcessed_def Let_def)
  have "listWidthEstimator_estimate p countFn r
      = \<lparr>Seats = boundSeats (uint_of_ceil p (ceil_div_100 ?e))\<rparr>"
    unfolding list_estimate_decoded [OF info opts] cache count
    using known [unfolded cache count] by (rule if_not_P)
  then have main: "unat (Seats (listWidthEstimator_estimate p countFn r)) = spec_seats estimated"
    using seats_of_count [OF low, of p] e by simp
  have through: "Verb requestInfo = ''list'' \<longrightarrow>
      unat (Seats (EstimateWidth (NewWidthEstimator p countFn) r)) = spec_seats estimated"
    using main info
    by (simp add: EstimateWidth_def NewWidthEstimator_def widthEstimator_estimate_def
        newListWidthEstimator_def)
  have s8: "spec_seats 799 = 8" and s5: "spec_seats 499 = 5"
    by (simp_all add: spec_seats_def)
  have ex0: "ResourceVersion opts = ''0'' \<and> sint (Limit opts) = 799 \<and> sint count = 799 \<longrightarrow>
      unat (Seats (listWidthEstimator_estimate p countFn r)) = 8"
  proof
    assume a: "ResourceVersion opts = ''0'' \<and> sint (Limit opts) = 799 \<and> sint count = 799"
    then have "estimated = 799"
      unfolding est by (simp add: spec_estimatedObjects_def)
    with main s8 show "unat (Seats (listWidthEstimator_estimate p countFn r)) = 8"
      by simp
  qed
  have ex1: "APIListChunking p \<and> ResourceVersion opts = ''1'' \<and> sint (Limit opts) = 499
      \<and> sint count = 799 \<longrightarrow> unat (Seats (listWidthEstimator_estimate p countFn r)) = 5"
  proof
    assume a: "APIListChunking p \<and> ResourceVersion opts = ''1'' \<and> sint (Limit opts) = 499
      \<and> sint count = 799"
    then have "shouldListFromStorage p (URL_Query r) opts"
      by (simp add: shouldListFromStorage_def Let_def word_sless_alt)
    then have "\<not> fromCache" using cache by simp
    with a have "estimated = 499"
      unfolding est by (simp add: spec_estimatedObjects_def)
    with main s5 show "unat (Seats (listWidthEstimator_estimate p countFn r)) = 5"
      by simp
  qed
  from main through ex0 ex1 show ?thesis by blast
qed

theorem list_estimate_seats_witness:
  "unat (Seats (EstimateWidth (NewWidthEstimator (testPlatform True)
        (countsFn [''resource.foo.bar'' \<mapsto> 799]))
        (testRequest (Some (testInfo ''list''))
           [''resourceVersion'' \<mapsto> [''0''], ''limit'' \<mapsto> [''799'']]))) = 8
   \<and> unat (Seats (listWidthEstimator_estimate (testPlatform True)
        (countsFn [''resource.foo.bar'' \<mapsto> 799])
        (testRequest (Some (testInfo ''list''))
           [''resourceVersion'' \<mapsto> [''1''], ''limit'' \<mapsto> [''499'']]))) = 5"
proof -
  let ?c = "countsFn [''resource.foo.bar'' \<mapsto> 799]"
  let ?p = "testPlatform True"
  let ?i = "testInfo ''list''"
  let ?r0 = "testRequest (Some ?i) [''resourceVersion'' \<mapsto> [''0''], ''limit'' \<mapsto> [''799'']]"
  let ?o0 = "\<lparr>ResourceVersion = ''0'', Continue = '''', Limit = 799,
      ResourceVersionMatch = ''''\<rparr>"
  let ?r1 = "testRequest (Some ?i) [''resourceVersion'' \<mapsto> [''1''], ''limit'' \<mapsto> [''499'']]"
  let ?o1 = "\<lparr>ResourceVersion = ''1'', Continue = '''', Limit = 499,
      ResourceVersionMatch = ''''\<rparr>"
  have i0: "RequestInfoFrom ?r0 = Some ?i" and i1: "RequestInfoFrom ?r1 = Some ?i"
    by (simp_all add: testRequest_def)
  have d0: "Convert_url_Values_To_v1_ListOptions ?p (URL_Query ?r0) = Inr ?o0"
    and d1: "Convert_url_Values_To_v1_ListOptions ?p (URL_Query ?r1) = Inr ?o1"
    by (simp_all add: test_defs)
  have c0: "True = (\<not> shouldListFromStorage ?p (URL_Query ?r0) ?o0)"
    and c1: "False = (\<not> shouldListFromStorage ?p (URL_Query ?r1) ?o1)"
    by (simp_all add: shouldListFromStorage_def ResourceVersionMatchExact_def
        testPlatform_def word_sless_alt)
  have n: "799 = ?c (key ?i)"
    by (simp add: countsFn_def key_def GroupResource_String_def testInfo_def)
  have k0: "\<not> ((Limit ?o0 = 0 \<or> True) \<and> (799::int64) = 0)"
    and k1: "\<not> ((Limit ?o1 = 0 \<or> False) \<and> (799::int64) = 0)"
    by simp_all
  have ln0: "0 \<le> sint (Limit ?o0)" and ln1: "0 \<le> sint (Limit ?o1)"
    and cn: "0 \<le> sint (799::int64)"
    by simp_all
  have e0: "799 = spec_estimatedObjects True (sint (Limit ?o0)) (sint (799::int64))"
    and e1: "499 = spec_estimatedObjects False (sint (Limit ?o1)) (sint (799::int64))"
    by (simp_all add: spec_estimatedObjects_def)
  have s8: "spec_seats 799 = 8"
    by (simp add: spec_seats_def)
  have v: "Verb ?i = ''list''"
    by (simp add: testInfo_def)
  have x1: "APIListChunking ?p \<and> ResourceVersion ?o1 = ''1'' \<and> sint (Limit ?o1) = 499
      \<and> sint (799::int64) = 799"
    by (simp add: testPlatform_def)
  note a0 = list_estimate_seats [where countFn = ?c, OF i0 d0 c0 n k0 ln0 cn e0,
      THEN conjunct2, THEN conjunct1, THEN mp, OF v, unfolded s8]
  note a1 = list_estimate_seats [where countFn = ?c, OF i1 d1 c1 n k1 ln1 cn e1,
      THEN conjunct2, THEN conjunct2, THEN conjunct2, THEN mp, OF x1]
  from a0 a1 show ?thesis by (rule conjI)
qed

text \<open>
  C6. When the request info resolves and the query decodes, a count of 0 together
  with a limit of 0 or a list served from the cache gives \<open>maximumSeats = 10\<close>
  seats.
\<close>

theorem unknown_count_maximum:
  assumes "RequestInfoFrom r = Some requestInfo"
    and "Convert_url_Values_To_v1_ListOptions p (URL_Query r) = Inr opts"
    and "countFn (key requestInfo) = 0"
    and "Limit opts = 0 \<or> \<not> shouldListFromStorage p (URL_Query r) opts"
  shows "listWidthEstimator_estimate p countFn r = \<lparr>Seats = maximumSeats\<rparr>
    \<and> unat maximumSeats = 10"
  using assms(3,4) list_estimate_decoded [OF assms(1,2), of countFn]
  by (simp add: maximumSeats_def)

theorem unknown_count_maximum_witness:
  "Seats (listWidthEstimator_estimate (testPlatform True) (countsFn Map.empty)
      (testRequest (Some (testInfo ''list''))
         [''resourceVersion'' \<mapsto> [''0''], ''limit'' \<mapsto> [''799'']])) = 10"
proof -
  let ?r = "testRequest (Some (testInfo ''list''))
      [''resourceVersion'' \<mapsto> [''0''], ''limit'' \<mapsto> [''799'']]"
  let ?opts = "\<lparr>ResourceVersion = ''0'', Continue = '''', Limit = 799,
      ResourceVersionMatch = ''''\<rparr>"
  have h1: "RequestInfoFrom ?r = Some (testInfo ''list'')"
    by (simp add: testRequest_def)
  have h2: "Convert_url_Values_To_v1_ListOptions (testPlatform True) (URL_Query ?r) = Inr ?opts"
    by (simp add: test_defs)
  have h3: "countsFn Map.empty (key (testInfo ''list'')) = 0"
    by (simp add: countsFn_def)
  have h4: "Limit ?opts = 0 \<or> \<not> shouldListFromStorage (testPlatform True) (URL_Query ?r) ?opts"
    by (simp add: shouldListFromStorage_def ResourceVersionMatchExact_def)
  from unknown_count_maximum [where countFn = "countsFn Map.empty", OF h1 h2 h3 h4]
  show ?thesis
    by (simp add: maximumSeats_def)
qed

text \<open>
  C7. When the request info resolves and the query does not decode, the list
  estimator gives \<open>minimumSeats = 1\<close> seat, and so does the dispatcher for the verb
  \<^verbatim>\<open>list\<close>; the same request without request info gets \<open>maximumSeats\<close>.
\<close>

theorem malformed_query_minimum:
  assumes "RequestInfoFrom r = Some requestInfo"
    and "Convert_url_Values_To_v1_ListOptions p (URL_Query r) = Inl err"
  shows "listWidthEstimator_estimate p countFn r = \<lparr>Seats = minimumSeats\<rparr>
    \<and> (Verb requestInfo = ''list'' \<longrightarrow>
         EstimateWidth (NewWidthEstimator p countFn) r = \<lparr>Seats = minimumSeats\<rparr>)
    \<and> listWidthEstimator_estimate p countFn (r\<lparr>RequestInfoFrom := None\<rparr>)
         = \<lparr>Seats = maximumSeats\<rparr>
    \<and> unat minimumSeats = 1 \<and> unat maximumSeats = 10"
  using assms(1) list_estimate_decode_error [OF assms, of countFn]
  by (simp add: EstimateWidth_def NewWidthEstimator_def widthEstimator_estimate_def
      newListWidthEstimator_def list_estimate_no_info minimumSeats_def maximumSeats_def)

theorem malformed_query_minimum_witness:
  "Seats (EstimateWidth (NewWidthEstimator (testPlatform True)
      (countsFn [''resource.foo.bar'' \<mapsto> 799]))
      (testRequest (Some (testInfo ''list'')) [''limit'' \<mapsto> [''abc'']])) = 1"
proof -
  let ?r = "testRequest (Some (testInfo ''list'')) [''limit'' \<mapsto> [''abc'']]"
  have h1: "RequestInfoFrom ?r = Some (testInfo ''list'')"
    by (simp add: testRequest_def)
  have h2: "Convert_url_Values_To_v1_ListOptions (testPlatform True) (URL_Query ?r)
      = Inl ''invalid limit''"
    by (simp add: test_defs)
  have h3: "Verb (testInfo ''list'') = ''list''"
    by (simp add: testInfo_def)
  from malformed_query_minimum [OF h1 h2, of "countsFn [''resource.foo.bar'' \<mapsto> 799]"] h3
  show ?thesis by (simp add: minimumSeats_def)
qed

text \<open>
  C8. The claim: with the list served from the cache, the seats do not decrease
  as the count increases. A count of 0 is the unknown count and gets 10 seats,
  while a count of 1 gets 1 seat: for the query \<^verbatim>\<open>resourceVersion=0\<close> the seats
  decrease from 10 to 1 when the count goes from 0 to 1.
\<close>

theorem cache_count_monotone_counterexample:
  "\<not> shouldListFromStorage (testPlatform True) [''resourceVersion'' \<mapsto> [''0'']]
        \<lparr>ResourceVersion = ''0'', Continue = '''', Limit = 0, ResourceVersionMatch = ''''\<rparr>
   \<and> sint (countsFn [''resource.foo.bar'' \<mapsto> 0] (key (testInfo ''list'')))
       \<le> sint (countsFn [''resource.foo.bar'' \<mapsto> 1] (key (testInfo ''list'')))
   \<and> unat (Seats (listWidthEstimator_estimate (testPlatform True)
        (countsFn [''resource.foo.bar'' \<mapsto> 0])
        (testRequest (Some (testInfo ''list'')) [''resourceVersion'' \<mapsto> [''0'']]))) = 10
   \<and> unat (Seats (listWidthEstimator_estimate (testPlatform True)
        (countsFn [''resource.foo.bar'' \<mapsto> 1])
        (testRequest (Some (testInfo ''list'')) [''resourceVersion'' \<mapsto> [''0'']]))) = 1"
  by (simp add: test_defs estimator_defs ceil_div_100_alt word_sless_alt)

text \<open>
  C8, amended. For a list that goes to storage with a positive limit, the seats do
  not decrease when the limit increases and the request info, the count source
  and the other options stay the same. For a list served from the cache, the
  seats do not decrease when a known (positive) count increases and the request
  stays the same.
\<close>

theorem list_seats_monotone:
  "(RequestInfoFrom r1 = Some requestInfo \<and> RequestInfoFrom r2 = Some requestInfo
      \<and> Convert_url_Values_To_v1_ListOptions p (URL_Query r1) = Inr opts
      \<and> Convert_url_Values_To_v1_ListOptions p (URL_Query r2) = Inr (opts\<lparr>Limit := limit2\<rparr>)
      \<and> shouldListFromStorage p (URL_Query r1) opts
      \<and> 0 < sint (Limit opts) \<and> sint (Limit opts) \<le> sint limit2
    \<longrightarrow> shouldListFromStorage p (URL_Query r2) (opts\<lparr>Limit := limit2\<rparr>)
        \<and> unat (Seats (listWidthEstimator_estimate p countFn r1))
            \<le> unat (Seats (listWidthEstimator_estimate p countFn r2)))
   \<and> (RequestInfoFrom r = Some requestInfo
      \<and> Convert_url_Values_To_v1_ListOptions p (URL_Query r) = Inr opts'
      \<and> \<not> shouldListFromStorage p (URL_Query r) opts'
      \<and> 0 < sint (countFn1 (key requestInfo))
      \<and> sint (countFn1 (key requestInfo)) \<le> sint (countFn2 (key requestInfo))
    \<longrightarrow> unat (Seats (listWidthEstimator_estimate p countFn1 r))
          \<le> unat (Seats (listWidthEstimator_estimate p countFn2 r)))"
proof (intro conjI impI; elim conjE)
  assume i1: "RequestInfoFrom r1 = Some requestInfo"
    and i2: "RequestInfoFrom r2 = Some requestInfo"
    and d1: "Convert_url_Values_To_v1_ListOptions p (URL_Query r1) = Inr opts"
    and d2: "Convert_url_Values_To_v1_ListOptions p (URL_Query r2) = Inr (opts\<lparr>Limit := limit2\<rparr>)"
    and st: "shouldListFromStorage p (URL_Query r1) opts"
    and pos: "0 < sint (Limit opts)"
    and le: "sint (Limit opts) \<le> sint limit2"
  show st2: "shouldListFromStorage p (URL_Query r2) (opts\<lparr>Limit := limit2\<rparr>)"
    using st pos le by (auto simp add: shouldListFromStorage_def Let_def word_sless_alt)
  have nz1: "Limit opts \<noteq> 0" using pos by auto
  have nz2: "limit2 \<noteq> 0" using pos le by auto
  have s1: "unat (Seats (listWidthEstimator_estimate p countFn r1)) = spec_seats (sint (Limit opts))"
    using st nz1 pos seats_of_count [of "Limit opts" p]
    by (simp add: list_estimate_decoded [OF i1 d1] estimatedObjectsToBeProcessed_def)
  have s2: "unat (Seats (listWidthEstimator_estimate p countFn r2)) = spec_seats (sint limit2)"
    using st2 nz2 pos le seats_of_count [of limit2 p]
    by (simp add: list_estimate_decoded [OF i2 d2] estimatedObjectsToBeProcessed_def)
  show "unat (Seats (listWidthEstimator_estimate p countFn r1))
      \<le> unat (Seats (listWidthEstimator_estimate p countFn r2))"
    unfolding s1 s2 using le by (rule spec_seats_mono)
next
  assume i: "RequestInfoFrom r = Some requestInfo"
    and d: "Convert_url_Values_To_v1_ListOptions p (URL_Query r) = Inr opts'"
    and ca: "\<not> shouldListFromStorage p (URL_Query r) opts'"
    and pos: "0 < sint (countFn1 (key requestInfo))"
    and le: "sint (countFn1 (key requestInfo)) \<le> sint (countFn2 (key requestInfo))"
  have nz1: "countFn1 (key requestInfo) \<noteq> 0" using pos by auto
  have nz2: "countFn2 (key requestInfo) \<noteq> 0" using pos le by auto
  have s1: "unat (Seats (listWidthEstimator_estimate p countFn1 r))
      = spec_seats (sint (countFn1 (key requestInfo)))"
    using ca nz1 pos seats_of_count [of "countFn1 (key requestInfo)" p]
    by (simp add: list_estimate_decoded [OF i d] estimatedObjectsToBeProcessed_def)
  have s2: "unat (Seats (listWidthEstimator_estimate p countFn2 r))
      = spec_seats (sint (countFn2 (key requestInfo)))"
    using ca nz2 pos le seats_of_count [of "countFn2 (key requestInfo)" p]
    by (simp add: list_estimate_decoded [OF i d] estimatedObjectsToBeProcessed_def)
  show "unat (Seats (listWidthEstimator_estimate p countFn1 r))
      \<le> unat (Seats (listWidthEstimator_estimate p countFn2 r))"
    unfolding s1 s2 using le by (rule spec_seats_mono)
qed

theorem list_seats_monotone_witness:
  "unat (Seats (listWidthEstimator_estimate (testPlatform True)
        (countsFn [''resource.foo.bar'' \<mapsto> 799])
        (testRequest (Some (testInfo ''list''))
           [''resourceVersion'' \<mapsto> [''1''], ''limit'' \<mapsto> [''499'']])))
     \<le> unat (Seats (listWidthEstimator_estimate (testPlatform True)
        (countsFn [''resource.foo.bar'' \<mapsto> 799])
        (testRequest (Some (testInfo ''list''))
           [''resourceVersion'' \<mapsto> [''1''], ''limit'' \<mapsto> [''799'']])))
   \<and> unat (Seats (listWidthEstimator_estimate (testPlatform True)
        (countsFn [''resource.foo.bar'' \<mapsto> 499])
        (testRequest (Some (testInfo ''list'')) [''resourceVersion'' \<mapsto> [''0'']])))
     \<le> unat (Seats (listWidthEstimator_estimate (testPlatform True)
        (countsFn [''resource.foo.bar'' \<mapsto> 799])
        (testRequest (Some (testInfo ''list'')) [''resourceVersion'' \<mapsto> [''0'']])))"
proof -
  let ?p = "testPlatform True"
  let ?i = "testInfo ''list''"
  let ?c = "countsFn [''resource.foo.bar'' \<mapsto> 799]"
  let ?c' = "countsFn [''resource.foo.bar'' \<mapsto> 499]"
  let ?r1 = "testRequest (Some ?i) [''resourceVersion'' \<mapsto> [''1''], ''limit'' \<mapsto> [''499'']]"
  let ?r2 = "testRequest (Some ?i) [''resourceVersion'' \<mapsto> [''1''], ''limit'' \<mapsto> [''799'']]"
  let ?r = "testRequest (Some ?i) [''resourceVersion'' \<mapsto> [''0'']]"
  let ?o1 = "\<lparr>ResourceVersion = ''1'', Continue = '''', Limit = 499,
      ResourceVersionMatch = ''''\<rparr>"
  let ?o = "\<lparr>ResourceVersion = ''0'', Continue = '''', Limit = 0,
      ResourceVersionMatch = ''''\<rparr>"
  have i1: "RequestInfoFrom ?r1 = Some ?i" and i2: "RequestInfoFrom ?r2 = Some ?i"
    and i: "RequestInfoFrom ?r = Some ?i"
    by (simp_all add: testRequest_def)
  have d1: "Convert_url_Values_To_v1_ListOptions ?p (URL_Query ?r1) = Inr ?o1"
    and d2: "Convert_url_Values_To_v1_ListOptions ?p (URL_Query ?r2) = Inr (?o1\<lparr>Limit := 799\<rparr>)"
    and d: "Convert_url_Values_To_v1_ListOptions ?p (URL_Query ?r) = Inr ?o"
    by (simp_all add: test_defs)
  have st: "shouldListFromStorage ?p (URL_Query ?r1) ?o1"
    and ca: "\<not> shouldListFromStorage ?p (URL_Query ?r) ?o"
    by (simp_all add: shouldListFromStorage_def ResourceVersionMatchExact_def
        testPlatform_def word_sless_alt)
  have l: "0 < sint (Limit ?o1) \<and> sint (Limit ?o1) \<le> sint (799::int64)"
    by simp
  have k: "?c' (key ?i) = 499" "?c (key ?i) = 799"
    by (simp_all add: countsFn_def key_def GroupResource_String_def testInfo_def)
  have n: "0 < sint (?c' (key ?i)) \<and> sint (?c' (key ?i)) \<le> sint (?c (key ?i))"
    unfolding k by simp
  note m = list_seats_monotone [where p = ?p and requestInfo = ?i and ?r1.0 = ?r1
      and ?r2.0 = ?r2 and opts = ?o1 and ?limit2.0 = 799 and countFn = ?c and r = ?r
      and opts' = ?o and ?countFn1.0 = ?c' and ?countFn2.0 = ?c]
  have a: "unat (Seats (listWidthEstimator_estimate ?p ?c ?r1))
      \<le> unat (Seats (listWidthEstimator_estimate ?p ?c ?r2))"
    using m [THEN conjunct1] i1 i2 d1 d2 st l by blast
  have b: "unat (Seats (listWidthEstimator_estimate ?p ?c' ?r))
      \<le> unat (Seats (listWidthEstimator_estimate ?p ?c ?r))"
    using m [THEN conjunct2] i d ca n by blast
  from a b show ?thesis by (rule conjI)
qed

text \<open>
  C9. When the request info resolves and the verb is neither \<^verbatim>\<open>list\<close> nor one
  of create, update, patch and delete, the dispatcher gives \<open>minimumSeats = 1\<close>
  seat.
\<close>

theorem other_verbs_minimum:
  assumes "RequestInfoFrom r = Some requestInfo"
    and "Verb requestInfo \<noteq> ''list''"
    and "Verb requestInfo \<notin> {''create'', ''update'', ''patch'', ''delete''}"
  shows "EstimateWidth (NewWidthEstimator p countFn) r = \<lparr>Seats = minimumSeats\<rparr>
    \<and> unat minimumSeats = 1"
  using assms(1,2)
  by (simp add: EstimateWidth_def NewWidthEstimator_def widthEstimator_estimate_def
      minimumSeats_def)

theorem other_verbs_minimum_witness:
  "Seats (EstimateWidth (NewWidthEstimator (testPlatform True) (countsFn Map.empty))
      (testRequest (Some \<lparr>Verb = ''get'', APIGroup = '''', Resource = ''''\<rparr>) Map.empty)) = 1"
proof -
  let ?i = "\<lparr>Verb = ''get'', APIGroup = '''', Resource = ''''\<rparr>"
  have h1: "RequestInfoFrom (testRequest (Some ?i) Map.empty) = Some ?i"
    by (simp add: testRequest_def)
  have h2: "Verb ?i \<noteq> ''list''" by simp
  have h3: "Verb ?i \<notin> {''create'', ''update'', ''patch'', ''delete''}" by simp
  from other_verbs_minimum [OF h1 h2 h3, of "testPlatform True" "countsFn Map.empty"]
  show ?thesis by (simp add: minimumSeats_def)
qed

text \<open>
  C10. The key of a request info is the resource name when the group is empty, and
  otherwise the resource name, a dot and the group; it depends on the group and
  the resource only. For the group \<^verbatim>\<open>foo.bar\<close> and the resource \<^verbatim>\<open>resource\<close> it
  is the key of the tests' count map, \<^verbatim>\<open>resource.foo.bar\<close>.
\<close>

theorem key_format:
  "key requestInfo =
     (if APIGroup requestInfo = '''' then Resource requestInfo
      else Resource requestInfo @ ''.'' @ APIGroup requestInfo)
   \<and> (APIGroup a = APIGroup b \<and> Resource a = Resource b \<longrightarrow> key a = key b)
   \<and> key (testInfo ''list'') = ''resource.foo.bar''
   \<and> key (testInfo ''list'') \<noteq> ''foo.bar/resource''"
  by (simp add: key_def GroupResource_String_def testInfo_def)

theorem key_format_witness:
  "key \<lparr>Verb = ''list'', APIGroup = '''', Resource = ''pods''\<rparr> = ''pods''
   \<and> key \<lparr>Verb = ''list'', APIGroup = ''apps'', Resource = ''deployments''\<rparr>
       = ''deployments.apps''
   \<and> key \<lparr>Verb = ''list'', APIGroup = ''apps'', Resource = ''deployments''\<rparr>
       = key \<lparr>Verb = ''get'', APIGroup = ''apps'', Resource = ''deployments''\<rparr>"
proof -
  let ?a = "\<lparr>Verb = ''list'', APIGroup = '''', Resource = ''pods''\<rparr>"
  let ?b = "\<lparr>Verb = ''list'', APIGroup = ''apps'', Resource = ''deployments''\<rparr>"
  let ?c = "\<lparr>Verb = ''get'', APIGroup = ''apps'', Resource = ''deployments''\<rparr>"
  have same: "APIGroup ?b = APIGroup ?c \<and> Resource ?b = Resource ?c"
    by simp
  have k1: "key ?a = ''pods''"
    using key_format [of ?a ?a ?a, THEN conjunct1] by simp
  have k2: "key ?b = ''deployments.apps''"
    using key_format [of ?b ?b ?b, THEN conjunct1] by simp
  have k3: "key ?b = key ?c"
    using key_format [of ?a ?b ?c, THEN conjunct2, THEN conjunct1] same by (rule mp)
  from k1 k2 k3 show ?thesis by simp
qed

end
